theory Spec2Isabelle
  imports Complex_Main "HOL-Library.Sublist"
begin

section \<open>JavaScript strings\<close>

text \<open>
  A JavaScript string is modelled as a \<^typ>\<open>string\<close>, read as ASCII text.
  \<open>toLowerCase\<close> maps the letters \<open>A\<close>..\<open>Z\<close> to \<open>a\<close>..\<open>z\<close> and leaves
  every other character as it is; \<open>trim\<close> removes the ASCII white space (tab, line
  feed, vertical tab, form feed, carriage return, space) at both ends. The case
  mappings and white space of JavaScript outside ASCII are not modelled.
\<close>

definition lowerChar :: "char \<Rightarrow> char" where
  "lowerChar c =
     (case map_of (zip ''ABCDEFGHIJKLMNOPQRSTUVWXYZ'' ''abcdefghijklmnopqrstuvwxyz'') c of
        Some l \<Rightarrow> l
      | None \<Rightarrow> c)"

definition toLowerCase :: "string \<Rightarrow> string" where
  "toLowerCase s = map lowerChar s"

definition isWhiteSpace :: "char \<Rightarrow> bool" where
  "isWhiteSpace c \<longleftrightarrow>
     c \<in> set [CHR 0x09, CHR 0x0A, CHR 0x0B, CHR 0x0C, CHR 0x0D, CHR '' '']"

definition trim :: "string \<Rightarrow> string" where
  "trim s = rev (dropWhile isWhiteSpace (rev (dropWhile isWhiteSpace s)))"

text \<open>\<open>s.includes(sub)\<close>: \<open>sub\<close> occurs in \<open>s\<close> at some position.\<close>

fun includes_str :: "string \<Rightarrow> string \<Rightarrow> bool" where
  "includes_str [] sub = (sub = [])"
| "includes_str (c # cs) sub = (prefix sub (c # cs) \<or> includes_str cs sub)"

section \<open>The helper functions of the directions controller\<close>

subsection \<open>addLocationQualifier\<close>

definition lagosAreas :: "string list" where
  "lagosAreas =
     [''Ikeja'', ''Victoria Island'', ''Lekki'', ''Ajah'', ''Ikoyi'', ''Surulere'',
      ''Yaba'', ''Apapa'', ''Oshodi'', ''Mushin'', ''Maryland'', ''Ojota'', ''Ogudu'',
      ''Gbagada'', ''Magodo'', ''Ojodu'', ''Berger'', ''Agege'', ''Ikorodu'', ''Epe'']"

definition addLocationQualifier :: "string \<Rightarrow> string" where
  "addLocationQualifier location =
     (if list_ex (\<lambda>area.
           includes_str (toLowerCase location) (toLowerCase area) \<and>
           \<not> includes_str (toLowerCase location) ''lagos'') lagosAreas
      then location @ '', Lagos, Nigeria''
      else if \<not> includes_str (toLowerCase location) ''nigeria''
      then location @ '', Nigeria''
      else location)"

subsection \<open>getDistanceContext\<close>

text \<open>
  A JavaScript number is modelled as a rational: the arithmetic of the two bucket
  functions is one subtraction, one division and one multiplication, taken exactly.
  A distance or duration object of the directions provider has a \<open>text\<close> and a
  numeric \<open>value\<close>; a field that may be missing is an option.
\<close>

type_synonym number = rat

record measure_obj =
  m_text :: "string option"
  m_value :: "number option"

text \<open>\<open>distance?.value || 0\<close>: an absent distance, an absent value and the value 0
  all give 0.\<close>

definition metersOf :: "measure_obj option \<Rightarrow> number" where
  "metersOf distance =
     (case distance of
        None \<Rightarrow> 0
      | Some d \<Rightarrow> (case m_value d of None \<Rightarrow> 0 | Some v \<Rightarrow> if v = 0 then 0 else v))"

definition getDistanceContext :: "measure_obj option \<Rightarrow> string" where
  "getDistanceContext distance =
     (let meters = metersOf distance;
          kilometers = meters / 1000
      in if kilometers < 3 then ''nearby''
         else if kilometers < 10 then ''short''
         else if kilometers < 30 then ''medium''
         else ''long'')"

subsection \<open>getTrafficStatus\<close>

text \<open>\<open>!x\<close> on an optional number: true when it is absent or 0.\<close>

definition falsyNum :: "number option \<Rightarrow> bool" where
  "falsyNum x \<longleftrightarrow> (case x of None \<Rightarrow> True | Some v \<Rightarrow> v = 0)"

definition percentageIncrease :: "number \<Rightarrow> number \<Rightarrow> number" where
  "percentageIncrease normalDuration trafficDuration =
     (let difference = trafficDuration - normalDuration
      in (difference / normalDuration) * 100)"

definition getTrafficStatus :: "number option \<Rightarrow> number option \<Rightarrow> string" where
  "getTrafficStatus normalDuration trafficDuration =
     (if falsyNum normalDuration \<or> falsyNum trafficDuration then ''Unknown''
      else case (normalDuration, trafficDuration) of
        (Some n, Some t) \<Rightarrow>
          (let p = percentageIncrease n t
           in if p \<le> 10 then ''Light traffic''
              else if p \<le> 30 then ''Moderate traffic''
              else if p \<le> 50 then ''Heavy traffic''
              else ''Severe traffic'')
      | _ \<Rightarrow> ''Unknown'')"

section \<open>Errors and promises\<close>

text \<open>
  A thrown JavaScript error is a value with its \<open>message\<close> and, when the thrower set
  one, a numeric \<open>status\<close>. An \<open>async\<close> function returns a promise: \<open>Inl\<close> of
  the error it rejects with, or \<open>Inr\<close> of the value it resolves to.
\<close>

record js_error =
  message :: string
  err_status :: "nat option"

type_synonym 'a promise = "js_error + 'a"

text \<open>\<open>new Error(msg)\<close>, and the errors the runtime itself throws, carry no status.\<close>

definition newError :: "string \<Rightarrow> js_error" where
  "newError msg = \<lparr>message = msg, err_status = None\<rparr>"

section \<open>The data of the directions provider\<close>

record step_raw =
  html_instructions :: string
  sr_distance :: "measure_obj option"
  sr_duration :: "measure_obj option"
  sr_maneuver :: "string option"

record leg_raw =
  lr_distance :: "measure_obj option"
  lr_duration :: "measure_obj option"
  lr_duration_in_traffic :: "measure_obj option"
  lr_steps :: "step_raw list"

record route_raw =
  rr_summary :: string
  rr_legs :: "leg_raw list"

record directions_data =
  status :: string
  d_routes :: "route_raw list"

record directions_response =
  data :: "directions_data option"

text \<open>The reduced structure the handler builds from the provider's payload.\<close>

record step =
  instructions :: string
  s_distance :: "measure_obj option"
  s_duration :: "measure_obj option"
  maneuver :: "string option"

record leg =
  distance :: "measure_obj option"
  duration :: "measure_obj option"
  duration_in_traffic :: "measure_obj option"
  steps :: "step list"

record route =
  summary :: string
  legs :: "leg list"

record response_data =
  routes :: "route list"
  rd_mode :: string
  current_time :: string

section \<open>The response cache\<close>

text \<open>
  The value the handler sends and caches as \<open>response\<close> is what the selected
  formatting function returned: a text, or, when the selected function is the inherited
  \<open>Object\<close>, the route data it was called with.
\<close>

datatype formatted = Text string | RouteObject response_data

record cache_entry =
  response :: formatted
  query_type :: string

text \<open>
  Modelled from the spec: the cache library (\<open>node-cache\<close>, created with
  \<open>stdTTL: 300\<close>) is not part of the repository. Following section 3 of the
  specification, an entry lives for a fixed interval of 300 seconds from its insertion,
  after which it is treated as absent; the table is a map from the key to the value and
  the time, in seconds, of its insertion.
\<close>

type_synonym route_cache = "string \<rightharpoonup> (cache_entry \<times> nat)"

definition stdTTL :: nat where
  "stdTTL = 300"

definition routeCache_get :: "route_cache \<Rightarrow> nat \<Rightarrow> string \<Rightarrow> cache_entry option" where
  "routeCache_get c now k =
     (case c k of
        None \<Rightarrow> None
      | Some (v, inserted) \<Rightarrow> if now \<le> inserted + stdTTL then Some v else None)"

definition routeCache_set :: "route_cache \<Rightarrow> nat \<Rightarrow> string \<Rightarrow> cache_entry \<Rightarrow> route_cache" where
  "routeCache_set c now k v = c(k \<mapsto> (v, now))"

section \<open>The upstream services\<close>

text \<open>The provider parameters a travel mode contributes to the request; each may be
  absent.\<close>

record mode_config =
  mc_mode :: "string option"
  mc_avoid :: "string list option"
  mc_transit_mode :: "string list option"

record params =
  pr_origin :: string
  pr_destination :: string
  pr_key :: string
  pr_mode :: "string option"
  pr_avoid :: "string list option"
  pr_transit_mode :: "string list option"
  pr_departure_time :: string
  pr_alternatives :: bool
  pr_traffic_model :: string

text \<open>
  Each prompt sent to the generative model is a fixed template with values embedded;
  the model is opaque, so a prompt is the template's name with the embedded values.
\<close>

datatype prompt =
    ExtractPrompt string
  | ClassifyPrompt string
  | DirectionsPrompt string "string list" "string option" "string option"
  | TrafficCheckPrompt string string "string option" string response_data
  | DurationCheckPrompt string string "string option" string response_data
  | RouteStatusPrompt string string response_data

datatype upstream_call = GenCall prompt | MapsCall params

text \<open>The object \<open>JSON.parse\<close> yields for the extractor; its fields are strings when
  present.\<close>

record parsed_response =
  p_origin :: "string option"
  p_destination :: "string option"
  p_mode :: "string option"

text \<open>
  What lies outside the program: the reply of the generative model to a prompt
  (\<open>generateContent\<close> followed by \<open>response.text()\<close>), \<open>JSON.parse\<close>, the reply of
  the directions provider (a rejected call is \<open>Inl\<close> of the client's error, which
  may carry the HTTP status), the configured key, the local time string, the time in
  seconds that passes between the cache lookup and the cache store, and the wording of
  the \<open>TypeError\<close> the engine throws when the inherited method of that name is called
  on an undefined receiver.
\<close>

record env =
  genAI :: "prompt \<Rightarrow> string promise"
  JSON_parse :: "string \<Rightarrow> parsed_response promise"
  mapsClient :: "params \<Rightarrow> directions_response promise"
  GOOGLE_MAPS_API_KEY :: string
  toLocaleTimeString :: string
  elapsed :: nat
  calledOnUndefined :: "string \<Rightarrow> string"

text \<open>
  The process-wide state is the cache table. The list \<open>calls\<close> records, in order,
  every call made to an upstream service, so that "no upstream call" can be stated.
\<close>

record server_state =
  cache :: route_cache
  calls :: "upstream_call list"

definition generateContent :: "env \<Rightarrow> prompt \<Rightarrow> server_state \<Rightarrow> string promise \<times> server_state" where
  "generateContent e p st = (genAI e p, st\<lparr>calls := calls st @ [GenCall p]\<rparr>)"

definition directions :: "env \<Rightarrow> params \<Rightarrow> server_state \<Rightarrow> directions_response promise \<times> server_state" where
  "directions e ps st = (mapsClient e ps, st\<lparr>calls := calls st @ [MapsCall ps]\<rparr>)"

section \<open>The intent extractor\<close>

text \<open>
  \<open>text.replace(/```json\n?|\n?```/g, '')\<close>: scanning from the left, at each position
  the first alternative that matches is removed (the optional line feed taken when it
  is there), and the scan goes on after the match.
\<close>

function stripFences :: "string \<Rightarrow> string" where
  "stripFences [] = []"
| "stripFences (c # cs) =
     (if prefix ''```json'' (c # cs) then
        (if prefix [CHR 0x0A] (drop 7 (c # cs)) then stripFences (drop 8 (c # cs))
         else stripFences (drop 7 (c # cs)))
      else if prefix (CHR 0x0A # ''```'') (c # cs) then stripFences (drop 4 (c # cs))
      else if prefix ''```'' (c # cs) then stripFences (drop 3 (c # cs))
      else c # stripFences cs)"
  by pat_completeness auto
termination
  by (relation "measure length") auto

text \<open>\<open>!x\<close> on an optional string: true when it is absent or empty.\<close>

definition falsyStr :: "string option \<Rightarrow> bool" where
  "falsyStr x \<longleftrightarrow> (case x of None \<Rightarrow> True | Some s \<Rightarrow> s = [])"

text \<open>
  A lookup \<open>table[key]\<close> on an object literal also finds the properties every object
  inherits from \<open>Object.prototype\<close>. Their values are truthy: functions, and for
  \<open>__proto__\<close> the prototype object itself. Called as a plain function with the
  arguments of a formatter, \<open>constructor\<close> (that is \<open>Object\<close>) returns its first
  argument, \<open>toString\<close> returns the text \<open>[object Undefined]\<close>, and each of
  \<open>throwingInherited\<close> throws a \<open>TypeError\<close>, its receiver being undefined.
\<close>

definition throwingInherited :: "string list" where
  "throwingInherited =
     [''hasOwnProperty'', ''isPrototypeOf'', ''propertyIsEnumerable'', ''toLocaleString'',
      ''valueOf'', ''__defineGetter__'', ''__defineSetter__'', ''__lookupGetter__'',
      ''__lookupSetter__'']"

definition objectPrototypeKeys :: "string list" where
  "objectPrototypeKeys = [''constructor'', ''__proto__'', ''toString''] @ throwingInherited"

definition carConfig :: mode_config where
  "carConfig = \<lparr>mc_mode = Some ''DRIVING'', mc_avoid = None, mc_transit_mode = None\<rparr>"

text \<open>The own keys of the table \<open>modeMapping\<close>.\<close>

definition modeMapping :: "string \<rightharpoonup> mode_config" where
  "modeMapping = map_of
     [(''bike'', \<lparr>mc_mode = Some ''DRIVING'', mc_avoid = Some [''highways''],
                  mc_transit_mode = None\<rparr>),
      (''car'', carConfig),
      (''bus'', \<lparr>mc_mode = Some ''TRANSIT'', mc_avoid = None,
                 mc_transit_mode = Some [''BUS'']\<rparr>),
      (''train'', \<lparr>mc_mode = Some ''TRANSIT'', mc_avoid = None,
                   mc_transit_mode = Some [''TRAIN'']\<rparr>)]"

text \<open>
  \<open>modeMapping[mode] || modeMapping.car\<close>, as the parameters the result contributes
  when it is spread into the request: an inherited value is truthy, so it is taken in
  place of the car entry, and it has no enumerable property of its own, so it
  contributes nothing.
\<close>

definition noOwnProperties :: mode_config where
  "noOwnProperties = \<lparr>mc_mode = None, mc_avoid = None, mc_transit_mode = None\<rparr>"

definition modeConfigFor :: "string \<Rightarrow> mode_config" where
  "modeConfigFor m =
     (case modeMapping m of
        Some c \<Rightarrow> c
      | None \<Rightarrow> if m \<in> set objectPrototypeKeys then noOwnProperties else carConfig)"

record intent =
  origin :: string
  destination :: string
  mode :: string
  modeConfig :: mode_config

text \<open>
  The body of the \<open>try\<close> block, given the model's reply: every failure in it is a
  thrown error.
\<close>

definition extractFromReply :: "env \<Rightarrow> string promise \<Rightarrow> intent promise" where
  "extractFromReply e reply =
     (case reply of
        Inl error \<Rightarrow> Inl error
      | Inr replyText \<Rightarrow>
          (let text = trim replyText;
               jsonStr = (if includes_str text ''```'' then trim (stripFences text) else text)
           in case JSON_parse e jsonStr of
                Inl error \<Rightarrow> Inl error
              | Inr parsedResponse \<Rightarrow>
                  (case (p_origin parsedResponse, p_destination parsedResponse) of
                     (Some orig, Some dest) \<Rightarrow>
                       if orig = [] \<or> dest = []
                       then Inl (newError ''Failed to extract valid locations from query'')
                       else
                         (let m = (case p_mode parsedResponse of
                                     None \<Rightarrow> ''car''
                                   | Some pm \<Rightarrow> if pm = [] then ''car'' else pm)
                          in Inr \<lparr>origin = addLocationQualifier orig,
                                  destination = addLocationQualifier dest,
                                  mode = m,
                                  modeConfig = modeConfigFor m\<rparr>)
                   | _ \<Rightarrow> Inl (newError ''Failed to extract valid locations from query''))))"

text \<open>
  The \<open>catch\<close> block logs \<open>response?.text()\<close> before it throws its own error, but
  \<open>response\<close> is a \<open>const\<close> of the \<open>try\<close> block and is not in scope there: evaluating
  it throws a \<open>ReferenceError\<close>, which is the error the function rejects with.
\<close>

definition extractCatch :: "js_error \<Rightarrow> js_error" where
  "extractCatch error = newError ''response is not defined''"

definition extractLocationsAndMode :: "env \<Rightarrow> string \<Rightarrow> server_state \<Rightarrow> intent promise \<times> server_state" where
  "extractLocationsAndMode e query st =
     (let (reply, st1) = generateContent e (ExtractPrompt query) st
      in (case extractFromReply e reply of
            Inl error \<Rightarrow> Inl (extractCatch error)
          | Inr parsedResponse \<Rightarrow> Inr parsedResponse,
          st1))"

section \<open>The query classifier\<close>

definition classifyQuery :: "env \<Rightarrow> string \<Rightarrow> server_state \<Rightarrow> string promise \<times> server_state" where
  "classifyQuery e query st =
     (let (reply, st1) = generateContent e (ClassifyPrompt query) st
      in (case reply of
            Inl error \<Rightarrow> Inr ''directions''
          | Inr replyText \<Rightarrow> Inr (toLowerCase (trim replyText)),
          st1))"

section \<open>The response formatters\<close>

text \<open>
  \<open>leg.duration_in_traffic?.text || leg.duration.text\<close>; the outer \<open>None\<close> is the
  \<open>TypeError\<close> of reading \<open>text\<close> of an absent \<open>duration\<close>.
\<close>

definition durationText :: "leg \<Rightarrow> string option option" where
  "durationText l =
     (let t = (case duration_in_traffic l of None \<Rightarrow> None | Some d \<Rightarrow> m_text d)
      in if \<not> falsyStr t then Some t
         else (case duration l of None \<Rightarrow> None | Some d \<Rightarrow> Some (m_text d)))"

text \<open>The prompt of \<open>formatDirections\<close>; \<open>None\<close> when building it throws a
  \<open>TypeError\<close> (no route, no leg, no step, no distance or no duration).\<close>

definition directionsPrompt :: "response_data \<Rightarrow> prompt option" where
  "directionsPrompt directionsData =
     (case routes directionsData of
        [] \<Rightarrow> None
      | r # _ \<Rightarrow>
          (case legs r of
             [] \<Rightarrow> None
           | l # _ \<Rightarrow>
               (case steps l of
                  [] \<Rightarrow> None
                | s0 # _ \<Rightarrow>
                    (case distance l of
                       None \<Rightarrow> None
                     | Some distanceObj \<Rightarrow>
                         (case durationText l of
                            None \<Rightarrow> None
                          | Some dur \<Rightarrow>
                              Some (DirectionsPrompt (instructions s0)
                                      (map instructions (steps l)) (m_text distanceObj) dur))))))"

definition formatDirections :: "env \<Rightarrow> response_data \<Rightarrow> server_state \<Rightarrow> string promise \<times> server_state" where
  "formatDirections e directionsData st =
     (case directionsPrompt directionsData of
        None \<Rightarrow> (Inr ''Error formatting directions'', st)
      | Some p \<Rightarrow>
          (let (reply, st1) = generateContent e p st
           in (case reply of
                 Inl error \<Rightarrow> Inr ''Error formatting directions''
               | Inr replyText \<Rightarrow> Inr replyText,
               st1)))"

text \<open>\<open>directionsData.routes[0]?.legs[0]?.distance\<close>\<close>

definition firstDistance :: "response_data \<Rightarrow> measure_obj option" where
  "firstDistance directionsData =
     (case routes directionsData of
        [] \<Rightarrow> None
      | r # _ \<Rightarrow> (case legs r of [] \<Rightarrow> None | l # _ \<Rightarrow> distance l))"

definition distanceText :: "measure_obj option \<Rightarrow> string option" where
  "distanceText distanceObj = (case distanceObj of None \<Rightarrow> None | Some d \<Rightarrow> m_text d)"

definition formatTrafficCheck ::
  "env \<Rightarrow> response_data \<Rightarrow> string \<Rightarrow> string \<Rightarrow> server_state \<Rightarrow> string promise \<times> server_state" where
  "formatTrafficCheck e directionsData orig dest st =
     (let distanceObj = firstDistance directionsData;
          distanceContext = getDistanceContext distanceObj
      in generateContent e
           (TrafficCheckPrompt orig dest (distanceText distanceObj) distanceContext directionsData) st)"

definition formatDurationCheck ::
  "env \<Rightarrow> response_data \<Rightarrow> string \<Rightarrow> string \<Rightarrow> server_state \<Rightarrow> string promise \<times> server_state" where
  "formatDurationCheck e directionsData orig dest st =
     (let distanceObj = firstDistance directionsData;
          distanceContext = getDistanceContext distanceObj
      in generateContent e
           (DurationCheckPrompt orig dest (distanceText distanceObj) distanceContext directionsData) st)"

definition formatRouteStatus ::
  "env \<Rightarrow> response_data \<Rightarrow> string \<Rightarrow> string \<Rightarrow> server_state \<Rightarrow> string promise \<times> server_state" where
  "formatRouteStatus e directionsData orig dest st =
     generateContent e (RouteStatusPrompt orig dest directionsData) st"

section \<open>The HTTP handler\<close>

datatype body = Result cache_entry | Failure string "string option"

record http_response =
  http_status :: nat
  body :: body

text \<open>\<open>res.json(v)\<close> answers with status 200 unless \<open>res.status\<close> was called.\<close>

definition json :: "body \<Rightarrow> http_response" where
  "json b = \<lparr>http_status = 200, body = b\<rparr>"

text \<open>\<open>error.status || 500\<close>\<close>

definition statusOr500 :: "js_error \<Rightarrow> nat" where
  "statusOr500 error =
     (case err_status error of None \<Rightarrow> 500 | Some s \<Rightarrow> if s = 0 then 500 else s)"

text \<open>The handler's \<open>catch\<close> block.\<close>

definition getDirections_catch :: "js_error \<Rightarrow> http_response" where
  "getDirections_catch error =
     \<lparr>http_status = statusOr500 error,
      body = Failure ''Error processing request'' (Some (message error))\<rparr>"

text \<open>The text a formatter resolves to, as the value the handler receives.\<close>

definition asText :: "string promise \<times> server_state \<Rightarrow> formatted promise \<times> server_state" where
  "asText r =
     (case r of
        (Inl error, st) \<Rightarrow> (Inl error, st)
      | (Inr t, st) \<Rightarrow> (Inr (Text t), st))"

text \<open>
  The lookup \<open>{...}[queryType] || formatDirections\<close> in the table of the three
  formatters, followed by the call of what was found with the route data, the origin
  and the destination. A label that is not a key selects \<open>formatDirections\<close>. A label
  that names an inherited property selects that property's value: \<open>Object\<close> returns
  the route data and \<open>toString\<close> a fixed text, with no call of a formatter; the
  prototype object found under \<open>__proto__\<close> is not a function, so the call throws;
  the other inherited methods throw.
\<close>

definition formattingFunction ::
  "string \<Rightarrow> env \<Rightarrow> response_data \<Rightarrow> string \<Rightarrow> string \<Rightarrow> server_state
     \<Rightarrow> formatted promise \<times> server_state" where
  "formattingFunction queryType e directionsData orig dest st =
     (if queryType = ''traffic_check'' then asText (formatTrafficCheck e directionsData orig dest st)
      else if queryType = ''duration_check''
      then asText (formatDurationCheck e directionsData orig dest st)
      else if queryType = ''route_status'' then asText (formatRouteStatus e directionsData orig dest st)
      else if queryType = ''constructor'' then (Inr (RouteObject directionsData), st)
      else if queryType = ''toString'' then (Inr (Text ''[object Undefined]''), st)
      else if queryType = ''__proto__''
      then (Inl (newError ''formattingFunction is not a function''), st)
      else if queryType \<in> set throwingInherited
      then (Inl (newError (calledOnUndefined e queryType)), st)
      else asText (formatDirections e directionsData st))"

definition reduceStep :: "step_raw \<Rightarrow> step" where
  "reduceStep s =
     \<lparr>instructions = html_instructions s, s_distance = sr_distance s,
      s_duration = sr_duration s, maneuver = sr_maneuver s\<rparr>"

definition reduceLeg :: "leg_raw \<Rightarrow> leg" where
  "reduceLeg l =
     \<lparr>distance = lr_distance l, duration = lr_duration l,
      duration_in_traffic = lr_duration_in_traffic l,
      steps = map reduceStep (lr_steps l)\<rparr>"

definition reduceRoute :: "route_raw \<Rightarrow> route" where
  "reduceRoute r = \<lparr>summary = rr_summary r, legs = map reduceLeg (rr_legs r)\<rparr>"

definition directionsParams :: "env \<Rightarrow> intent \<Rightarrow> params" where
  "directionsParams e it =
     \<lparr>pr_origin = origin it,
      pr_destination = destination it,
      pr_key = GOOGLE_MAPS_API_KEY e,
      pr_mode = mc_mode (modeConfig it),
      pr_avoid = mc_avoid (modeConfig it),
      pr_transit_mode = mc_transit_mode (modeConfig it),
      pr_departure_time = ''now'',
      pr_alternatives = True,
      pr_traffic_model = ''best_guess''\<rparr>"

text \<open>\<open>`Invalid response: ${directionsResponse.data?.status}`\<close>\<close>

definition invalidResponse :: "directions_response \<Rightarrow> js_error" where
  "invalidResponse r =
     newError (''Invalid response: '' @
       (case data r of None \<Rightarrow> ''undefined'' | Some d \<Rightarrow> status d))"

text \<open>
  \<open>query.toLowerCase()\<close> on a request body without a \<open>query\<close> field throws this
  \<open>TypeError\<close>.
\<close>

definition undefinedQueryError :: js_error where
  "undefinedQueryError =
     newError (''Cannot read properties of undefined (reading '' @ [CHR 0x27] @
       ''toLowerCase'' @ [CHR 0x27] @ '')'')"

text \<open>
  The body of the handler's \<open>try\<close> block. The request is the \<open>query\<close> field of the
  body (\<open>None\<close> when the body has no such field; a field that is not a string is
  not modelled) and arrives at time \<open>now\<close>, in seconds; the result is the response
  sent, or the error thrown, and the state afterwards.
\<close>

definition getDirections_try ::
  "env \<Rightarrow> nat \<Rightarrow> string option \<Rightarrow> server_state \<Rightarrow> http_response promise \<times> server_state" where
  "getDirections_try e now query st =
     (case query of
        None \<Rightarrow> (Inl undefinedQueryError, st)
      | Some q \<Rightarrow>
          (let cacheKey = trim (toLowerCase q)
           in case routeCache_get (cache st) now cacheKey of
                Some cachedResponse \<Rightarrow> (Inr (json (Result cachedResponse)), st)
              | None \<Rightarrow>
                  if q = []
                  then (Inr \<lparr>http_status = 400, body = Failure ''Query is required'' None\<rparr>, st)
                  else
                    (let (extracted, st1) = extractLocationsAndMode e q st;
                         (classified, st2) = classifyQuery e q st1
                     in case extracted of
                          Inl error \<Rightarrow> (Inl error, st2)
                        | Inr it \<Rightarrow>
                            (case classified of
                               Inl error \<Rightarrow> (Inl error, st2)
                             | Inr queryType \<Rightarrow>
                                 (let (fetched, st3) = directions e (directionsParams e it) st2
                                  in case fetched of
                                       Inl error \<Rightarrow> (Inl error, st3)
                                     | Inr directionsResponse \<Rightarrow>
                                         (case data directionsResponse of
                                            None \<Rightarrow> (Inl (invalidResponse directionsResponse), st3)
                                          | Some d \<Rightarrow>
                                              if status d \<noteq> ''OK''
                                              then (Inl (invalidResponse directionsResponse), st3)
                                              else
                                                (let responseData =
                                                       \<lparr>routes = map reduceRoute (d_routes d),
                                                        rd_mode = mode it,
                                                        current_time = toLocaleTimeString e\<rparr>;
                                                     (formatted, st4) =
                                                       formattingFunction queryType e responseData
                                                         (origin it) (destination it) st3
                                                 in case formatted of
                                                      Inl error \<Rightarrow> (Inl error, st4)
                                                    | Inr formattedResponse \<Rightarrow>
                                                        (let entry =
                                                               \<lparr>response = formattedResponse,
                                                                query_type = queryType\<rparr>
                                                         in (Inr (json (Result entry)),
                                                             st4\<lparr>cache :=
                                                               routeCache_set (cache st4)
                                                                 (now + elapsed e) cacheKey
                                                                 entry\<rparr>)))))))))"

definition getDirections ::
  "env \<Rightarrow> nat \<Rightarrow> string option \<Rightarrow> server_state \<Rightarrow> http_response \<times> server_state" where
  "getDirections e now query st =
     (case getDirections_try e now query st of
        (Inl error, st') \<Rightarrow> (getDirections_catch error, st')
      | (Inr res, st') \<Rightarrow> (res, st'))"

section \<open>The order of the traffic labels\<close>

text \<open>
  The specification orders the four traffic labels by severity: Light, Moderate,
  Heavy, Severe. \<open>severityRank\<close> is the position of a label in that order (and 4 for
  any other string).
\<close>

definition severityRank :: "string \<Rightarrow> nat" where
  "severityRank label =
     (if label = ''Light traffic'' then 0
      else if label = ''Moderate traffic'' then 1
      else if label = ''Heavy traffic'' then 2
      else if label = ''Severe traffic'' then 3
      else 4)"

section \<open>Example environments\<close>

text \<open>The JSON text \<open>{"origin": "Ikeja", "destination": "Lekki"}\<close>.\<close>

definition quoted :: "string \<Rightarrow> string" where
  "quoted s = CHR 0x22 # s @ [CHR 0x22]"

definition ikejaLekkiJson :: string where
  "ikejaLekkiJson =
     ''{'' @ quoted ''origin'' @ '': '' @ quoted ''Ikeja'' @ '', '' @
     quoted ''destination'' @ '': '' @ quoted ''Lekki'' @ ''}''"

text \<open>\<open>JSON.parse\<close> on the texts the examples hand it: the JSON text above is the
  only one of them that is JSON.\<close>

definition parseExample :: "string \<Rightarrow> parsed_response promise" where
  "parseExample s =
     (if s = ikejaLekkiJson
      then Inr \<lparr>p_origin = Some ''Ikeja'', p_destination = Some ''Lekki'', p_mode = None\<rparr>
      else Inl (newError ''Unexpected token''))"

text \<open>
  A generative model that answers the extraction prompt with the JSON text, the
  classification prompt with \<open>Weather\<close> and white space around it (and fails for the
  query \<open>fail\<close>), and every formatting prompt with a text.
\<close>

definition exampleModel :: "prompt \<Rightarrow> string promise" where
  "exampleModel p =
     (case p of
        ExtractPrompt q \<Rightarrow> Inr ikejaLekkiJson
      | ClassifyPrompt q \<Rightarrow>
          if q = ''fail'' then Inl (newError ''fetch failed'') else Inr '' Weather  ''
      | _ \<Rightarrow> Inr ''Take the Lekki-Epe Expressway, about 50 minutes.'')"

text \<open>An environment whose directions provider finds no route: the call resolves with
  the status \<open>ZERO_RESULTS\<close>.\<close>

definition zeroResultsEnv :: env where
  "zeroResultsEnv =
     \<lparr>genAI = exampleModel,
      JSON_parse = parseExample,
      mapsClient = (\<lambda>ps. Inr \<lparr>data = Some \<lparr>status = ''ZERO_RESULTS'', d_routes = []\<rparr>\<rparr>),
      GOOGLE_MAPS_API_KEY = ''key'',
      toLocaleTimeString = ''10:00:00 AM'',
      elapsed = 2,
      calledOnUndefined = (\<lambda>name. ''Cannot convert undefined or null to object'')\<rparr>"

text \<open>The same environment with a provider call that is rejected with the given
  error.\<close>

definition rejectingEnv :: "js_error \<Rightarrow> env" where
  "rejectingEnv error = zeroResultsEnv\<lparr>mapsClient := (\<lambda>ps. Inl error)\<rparr>"

text \<open>The rejections of a provider answer \<open>REQUEST_DENIED\<close> and \<open>NOT_FOUND\<close>, carrying
  the HTTP status, and of a connection that timed out, carrying none.\<close>

definition requestDenied :: js_error where
  "requestDenied = \<lparr>message = ''Request failed with status code 403'', err_status = Some 403\<rparr>"

definition notFound :: js_error where
  "notFound = \<lparr>message = ''Request failed with status code 404'', err_status = Some 404\<rparr>"

definition timedOut :: js_error where
  "timedOut = \<lparr>message = ''timeout of 10000ms exceeded'', err_status = None\<rparr>"

text \<open>The same environment with a provider that answers \<open>OK\<close> with one route of one
  leg and one step.\<close>

definition exampleRoute :: route_raw where
  "exampleRoute =
     \<lparr>rr_summary = ''Lekki-Epe Expressway'',
      rr_legs =
        [\<lparr>lr_distance = Some \<lparr>m_text = Some ''21.4 km'', m_value = Some 21400\<rparr>,
          lr_duration = Some \<lparr>m_text = Some ''35 mins'', m_value = Some 2100\<rparr>,
          lr_duration_in_traffic = Some \<lparr>m_text = Some ''50 mins'', m_value = Some 3000\<rparr>,
          lr_steps =
            [\<lparr>html_instructions = ''Head north on Allen Avenue'',
              sr_distance = Some \<lparr>m_text = Some ''0.3 km'', m_value = Some 300\<rparr>,
              sr_duration = Some \<lparr>m_text = Some ''1 min'', m_value = Some 60\<rparr>,
              sr_maneuver = None\<rparr>]\<rparr>]\<rparr>"

definition okEnv :: env where
  "okEnv =
     zeroResultsEnv\<lparr>mapsClient :=
       (\<lambda>ps. Inr \<lparr>data = Some \<lparr>status = ''OK'', d_routes = [exampleRoute]\<rparr>\<rparr>)\<rparr>"


text \<open>The environment \<open>okEnv\<close> with a model that answers the classification prompt
  with \<open>Constructor\<close>.\<close>

definition constructorEnv :: env where
  "constructorEnv =
     okEnv\<lparr>genAI :=
       (\<lambda>p. case p of
               ClassifyPrompt q \<Rightarrow> Inr ''Constructor''
             | _ \<Rightarrow> exampleModel p)\<rparr>"

text \<open>What the handler derives from the example reply and the example route: the
  intent, the parameters of the provider call, the reduced route data and the prompt of
  \<open>formatDirections\<close>.\<close>

definition exampleIntent :: intent where
  "exampleIntent =
     \<lparr>origin = ''Ikeja, Lagos, Nigeria'', destination = ''Lekki, Lagos, Nigeria'',
      mode = ''car'', modeConfig = carConfig\<rparr>"

definition exampleParams :: params where
  "exampleParams =
     \<lparr>pr_origin = ''Ikeja, Lagos, Nigeria'', pr_destination = ''Lekki, Lagos, Nigeria'',
      pr_key = ''key'', pr_mode = Some ''DRIVING'', pr_avoid = None, pr_transit_mode = None,
      pr_departure_time = ''now'', pr_alternatives = True,
      pr_traffic_model = ''best_guess''\<rparr>"

definition exampleData :: response_data where
  "exampleData =
     \<lparr>routes = [reduceRoute exampleRoute], rd_mode = ''car'',
      current_time = ''10:00:00 AM''\<rparr>"


definition emptyState :: server_state where
  "emptyState = \<lparr>cache = Map.empty, calls = []\<rparr>"

text \<open>A state whose cache holds one entry, inserted at time 100 under the key
  \<open>ikeja to lekki\<close>.\<close>

definition cachedEntry :: cache_entry where
  "cachedEntry = \<lparr>response = Text ''Head north'', query_type = ''directions''\<rparr>"

definition warmState :: server_state where
  "warmState = \<lparr>cache = [''ikeja to lekki'' \<mapsto> (cachedEntry, 100)], calls = []\<rparr>"

section \<open>Strings: substring search and lower-casing\<close>

lemma includes_str_sublist: "includes_str s sub \<longleftrightarrow> sublist sub s"
  by (induction s) (simp_all add: sublist_Cons_right)

lemma toLowerCase_append: "toLowerCase (a @ b) = toLowerCase a @ toLowerCase b"
  by (simp add: toLowerCase_def)

lemma isWhiteSpace_lowerChar: "isWhiteSpace (lowerChar c) = isWhiteSpace c"
  by (auto simp: lowerChar_def isWhiteSpace_def)

lemma trim_toLowerCase: "toLowerCase (trim s) = trim (toLowerCase s)"
  by (simp add: toLowerCase_def trim_def rev_map dropWhile_map comp_def isWhiteSpace_lowerChar)

text \<open>A string without the character \<open>c\<close> that occurs in \<open>xs @ c # ys\<close> occurs on one
  side of \<open>c\<close>.\<close>

lemma sublist_across:
  assumes "c \<notin> set a" and "sublist a (xs @ c # ys)"
  shows "sublist a xs \<or> sublist a ys"
proof -
  from assms(2) consider "sublist a xs" | "sublist a (c # ys)"
    | a1 a2 where "a = a1 @ a2" "suffix a1 xs" "prefix a2 (c # ys)"
    by (auto simp: sublist_append)
  then show ?thesis
  proof cases
    case 1
    then show ?thesis by simp
  next
    case 2
    then have "prefix a (c # ys) \<or> sublist a ys" by (simp add: sublist_Cons_right)
    moreover have "prefix a (c # ys) \<Longrightarrow> a = []"
      using assms(1) by (cases a) auto
    ultimately show ?thesis by auto
  next
    case 3
    have "a2 = []" using 3(1,3) assms(1) by (cases a2) auto
    with 3 show ?thesis by auto
  qed
qed

section \<open>The location qualifier\<close>

lemma lowered_areas:
  "map toLowerCase lagosAreas =
     [''ikeja'', ''victoria island'', ''lekki'', ''ajah'', ''ikoyi'', ''surulere'',
      ''yaba'', ''apapa'', ''oshodi'', ''mushin'', ''maryland'', ''ojota'', ''ogudu'',
      ''gbagada'', ''magodo'', ''ojodu'', ''berger'', ''agege'', ''ikorodu'', ''epe'']"
  by code_simp

lemma lowered_suffixes:
  "toLowerCase '', Lagos, Nigeria'' = '', lagos, nigeria''"
  "toLowerCase '', Nigeria'' = CHR '','' # '' nigeria''"
  by code_simp+

lemma areas_apart:
  "list_all (\<lambda>a. CHR '','' \<notin> set a \<and> \<not> includes_str '' nigeria'' a)
     (map toLowerCase lagosAreas)"
  unfolding lowered_areas by simp

lemma area_apart:
  assumes "area \<in> set lagosAreas"
  shows "CHR '','' \<notin> set (toLowerCase area)"
    and "\<not> sublist (toLowerCase area) '' nigeria''"
  using assms areas_apart by (auto simp: list_all_iff includes_str_sublist)

lemma suffix_mentions:
  "sublist ''lagos'' (xs @ '', lagos, nigeria'')"
  "sublist ''nigeria'' (xs @ '', lagos, nigeria'')"
  "sublist ''nigeria'' (xs @ CHR '','' # '' nigeria'')"
proof -
  have "xs @ '', lagos, nigeria'' = (xs @ '', '') @ ''lagos'' @ '', nigeria''" by simp
  then show "sublist ''lagos'' (xs @ '', lagos, nigeria'')" unfolding sublist_def by blast
  have "xs @ '', lagos, nigeria'' = (xs @ '', lagos, '') @ ''nigeria'' @ []" by simp
  then show "sublist ''nigeria'' (xs @ '', lagos, nigeria'')" unfolding sublist_def by blast
  have "xs @ CHR '','' # '' nigeria'' = (xs @ '', '') @ ''nigeria'' @ []" by simp
  then show "sublist ''nigeria'' (xs @ CHR '','' # '' nigeria'')" unfolding sublist_def by blast
qed

text \<open>The three branches of \<open>addLocationQualifier\<close>, with the search for a substring
  read as \<^const>\<open>sublist\<close>.\<close>

lemma addLocationQualifier_branches:
  "addLocationQualifier location =
     (if (\<exists>area \<in> set lagosAreas. sublist (toLowerCase area) (toLowerCase location)) \<and>
         \<not> sublist ''lagos'' (toLowerCase location)
      then location @ '', Lagos, Nigeria''
      else if \<not> sublist ''nigeria'' (toLowerCase location)
      then location @ '', Nigeria''
      else location)"
  unfolding addLocationQualifier_def list_ex_iff includes_str_sublist by auto

lemma addLocationQualifier_mentions_nigeria:
  "sublist ''nigeria'' (toLowerCase (addLocationQualifier s))"
  by (simp add: addLocationQualifier_branches toLowerCase_append lowered_suffixes
        suffix_mentions del: append.simps)

lemma addLocationQualifier_twice:
  "addLocationQualifier (addLocationQualifier s) = addLocationQualifier s"
proof -
  let ?areaIn = "\<lambda>x. \<exists>area \<in> set lagosAreas. sublist (toLowerCase area) (toLowerCase x)"
  let ?lagosIn = "\<lambda>x. sublist ''lagos'' (toLowerCase x)"
  let ?nigeriaIn = "\<lambda>x. sublist ''nigeria'' (toLowerCase x)"
  consider (lagos) "?areaIn s" "\<not> ?lagosIn s"
    | (country) "\<not> (?areaIn s \<and> \<not> ?lagosIn s)" "\<not> ?nigeriaIn s"
    | (same) "\<not> (?areaIn s \<and> \<not> ?lagosIn s)" "?nigeriaIn s"
    by blast
  then show ?thesis
  proof cases
    case lagos
    then have out: "addLocationQualifier s = s @ '', Lagos, Nigeria''"
      by (simp add: addLocationQualifier_branches)
    have "?lagosIn (s @ '', Lagos, Nigeria'')" "?nigeriaIn (s @ '', Lagos, Nigeria'')"
      by (simp_all only: toLowerCase_append lowered_suffixes suffix_mentions)
    then show ?thesis
      unfolding out by (subst addLocationQualifier_branches) simp
  next
    case country
    then have out: "addLocationQualifier s = s @ '', Nigeria''"
      by (simp add: addLocationQualifier_branches)
    have low: "toLowerCase (s @ '', Nigeria'') = toLowerCase s @ CHR '','' # '' nigeria''"
      by (simp only: toLowerCase_append lowered_suffixes)
    have nig: "?nigeriaIn (s @ '', Nigeria'')"
      by (simp only: low suffix_mentions)
    have "\<not> (?areaIn (s @ '', Nigeria'') \<and> \<not> ?lagosIn (s @ '', Nigeria''))"
    proof
      assume h: "?areaIn (s @ '', Nigeria'') \<and> \<not> ?lagosIn (s @ '', Nigeria'')"
      then obtain area where a: "area \<in> set lagosAreas"
        and sub: "sublist (toLowerCase area) (toLowerCase s @ CHR '','' # '' nigeria'')"
        unfolding low by blast
      from sublist_across [OF area_apart(1) [OF a] sub] area_apart(2) [OF a]
      have "sublist (toLowerCase area) (toLowerCase s)" by blast
      with a country(1) have "?lagosIn s" by blast
      then have "?lagosIn (s @ '', Nigeria'')"
        unfolding low by (auto simp: sublist_append)
      with h show False by blast
    qed
    with nig show ?thesis
      unfolding out by (subst addLocationQualifier_branches) simp
  next
    case same
    then have "addLocationQualifier s = s"
      by (subst addLocationQualifier_branches) auto
    then show ?thesis by simp
  qed
qed

text \<open>
  Claim C2. \<open>addLocationQualifier\<close> maps \<open>Ikeja\<close> to \<open>Ikeja, Lagos, Nigeria\<close>,
  \<open>Lekki, Lagos\<close> to \<open>Lekki, Lagos, Nigeria\<close> and \<open>Paris\<close> to \<open>Paris, Nigeria\<close>.
  For every location: when its lower-cased form contains the lower-cased form of one
  of the twenty area names and does not contain \<open>lagos\<close>, the suffix
  \<open>, Lagos, Nigeria\<close> is appended; otherwise \<open>, Nigeria\<close> is appended when the
  lower-cased form does not contain \<open>nigeria\<close>, and the location is returned as it is
  when it does.
\<close>

theorem addLocationQualifier_spec:
  "addLocationQualifier ''Ikeja'' = ''Ikeja, Lagos, Nigeria'' \<and>
   addLocationQualifier ''Lekki, Lagos'' = ''Lekki, Lagos, Nigeria'' \<and>
   addLocationQualifier ''Paris'' = ''Paris, Nigeria'' \<and>
   length lagosAreas = 20 \<and>
   addLocationQualifier location =
     (if (\<exists>area \<in> set lagosAreas. sublist (toLowerCase area) (toLowerCase location)) \<and>
         \<not> sublist ''lagos'' (toLowerCase location)
      then location @ '', Lagos, Nigeria''
      else if \<not> sublist ''nigeria'' (toLowerCase location)
      then location @ '', Nigeria''
      else location)"
proof -
  have "addLocationQualifier ''Ikeja'' = ''Ikeja, Lagos, Nigeria''" by code_simp
  moreover have "addLocationQualifier ''Lekki, Lagos'' = ''Lekki, Lagos, Nigeria''" by code_simp
  moreover have "addLocationQualifier ''Paris'' = ''Paris, Nigeria''" by code_simp
  moreover have "length lagosAreas = 20" by (simp add: lagosAreas_def)
  ultimately show ?thesis using addLocationQualifier_branches by blast
qed

theorem addLocationQualifier_spec_witness:
  "addLocationQualifier ''VICTORIA ISLAND'' = ''VICTORIA ISLAND, Lagos, Nigeria'' \<and>
   addLocationQualifier ''Ikeja, lagos'' = ''Ikeja, lagos, Nigeria'' \<and>
   addLocationQualifier ''Abuja, NIGERIA'' = ''Abuja, NIGERIA''"
proof -
  have a: "(\<exists>area \<in> set lagosAreas.
              sublist (toLowerCase area) (toLowerCase ''VICTORIA ISLAND'')) \<and>
           \<not> sublist ''lagos'' (toLowerCase ''VICTORIA ISLAND'')"
    by code_simp
  have b: "\<not> ((\<exists>area \<in> set lagosAreas.
                  sublist (toLowerCase area) (toLowerCase ''Ikeja, lagos'')) \<and>
               \<not> sublist ''lagos'' (toLowerCase ''Ikeja, lagos''))"
          "\<not> sublist ''nigeria'' (toLowerCase ''Ikeja, lagos'')"
    by code_simp+
  have c: "\<not> ((\<exists>area \<in> set lagosAreas.
                  sublist (toLowerCase area) (toLowerCase ''Abuja, NIGERIA'')) \<and>
               \<not> sublist ''lagos'' (toLowerCase ''Abuja, NIGERIA''))"
          "sublist ''nigeria'' (toLowerCase ''Abuja, NIGERIA'')"
    by code_simp+
  have "addLocationQualifier ''VICTORIA ISLAND'' = ''VICTORIA ISLAND'' @ '', Lagos, Nigeria''"
    using addLocationQualifier_spec [of "''VICTORIA ISLAND''"] a by presburger
  moreover have "addLocationQualifier ''Ikeja, lagos'' = ''Ikeja, lagos'' @ '', Nigeria''"
    using addLocationQualifier_spec [of "''Ikeja, lagos''"] b by presburger
  moreover have "addLocationQualifier ''Abuja, NIGERIA'' = ''Abuja, NIGERIA''"
    using addLocationQualifier_spec [of "''Abuja, NIGERIA''"] c by presburger
  ultimately show ?thesis by simp
qed

text \<open>
  Claim C9. \<open>addLocationQualifier\<close> is idempotent. Every output contains \<open>nigeria\<close>
  in its lower-cased form, and an output of the Lagos branch also contains \<open>lagos\<close>.
\<close>

theorem addLocationQualifier_idempotent:
  "addLocationQualifier (addLocationQualifier s) = addLocationQualifier s \<and>
   sublist ''nigeria'' (toLowerCase (addLocationQualifier s)) \<and>
   ((\<exists>area \<in> set lagosAreas. sublist (toLowerCase area) (toLowerCase s)) \<and>
    \<not> sublist ''lagos'' (toLowerCase s) \<longrightarrow>
      addLocationQualifier s = s @ '', Lagos, Nigeria'' \<and>
      sublist ''lagos'' (toLowerCase (addLocationQualifier s)))"
proof -
  have "sublist ''lagos'' (toLowerCase (s @ '', Lagos, Nigeria''))"
    by (simp only: toLowerCase_append lowered_suffixes suffix_mentions)
  then show ?thesis
    using addLocationQualifier_twice [of s] addLocationQualifier_mentions_nigeria [of s]
    by (simp add: addLocationQualifier_branches)
qed

theorem addLocationQualifier_idempotent_witness:
  "addLocationQualifier ''Yaba'' = ''Yaba, Lagos, Nigeria'' \<and>
   addLocationQualifier ''Yaba, Lagos, Nigeria'' = ''Yaba, Lagos, Nigeria'' \<and>
   sublist ''nigeria'' (toLowerCase ''Yaba, Lagos, Nigeria'') \<and>
   sublist ''lagos'' (toLowerCase ''Yaba, Lagos, Nigeria'')"
proof -
  have h: "(\<exists>area \<in> set lagosAreas. sublist (toLowerCase area) (toLowerCase ''Yaba'')) \<and>
           \<not> sublist ''lagos'' (toLowerCase ''Yaba'')"
    by code_simp
  from addLocationQualifier_idempotent [of "''Yaba''"] h
  have "addLocationQualifier ''Yaba'' = ''Yaba'' @ '', Lagos, Nigeria''"
    and "addLocationQualifier (addLocationQualifier ''Yaba'') = addLocationQualifier ''Yaba''"
    and "sublist ''nigeria'' (toLowerCase (addLocationQualifier ''Yaba''))"
    and "sublist ''lagos'' (toLowerCase (addLocationQualifier ''Yaba''))"
    by blast+
  then show ?thesis by simp
qed

section \<open>The distance and traffic buckets\<close>

lemma metersOf_value: "metersOf (Some \<lparr>m_text = t, m_value = Some v\<rparr>) = v"
  by (simp add: metersOf_def)

text \<open>
  Claim C4. For every distance, \<open>getDistanceContext\<close> returns one of the four labels:
  \<open>nearby\<close> exactly when the distance is below 3 km, \<open>short\<close> exactly from 3 km to below
  10 km, \<open>medium\<close> exactly from 10 km to below 30 km, and \<open>long\<close> exactly from 30 km on.
  A distance of 2999 metres is \<open>nearby\<close> and one of 3000 metres is \<open>short\<close>.
\<close>

theorem getDistanceContext_buckets:
  "getDistanceContext d \<in> {''nearby'', ''short'', ''medium'', ''long''} \<and>
   (getDistanceContext d = ''nearby'' \<longleftrightarrow> metersOf d / 1000 < 3) \<and>
   (getDistanceContext d = ''short'' \<longleftrightarrow> 3 \<le> metersOf d / 1000 \<and> metersOf d / 1000 < 10) \<and>
   (getDistanceContext d = ''medium'' \<longleftrightarrow> 10 \<le> metersOf d / 1000 \<and> metersOf d / 1000 < 30) \<and>
   (getDistanceContext d = ''long'' \<longleftrightarrow> 30 \<le> metersOf d / 1000) \<and>
   metersOf (Some \<lparr>m_text = t, m_value = Some v\<rparr>) = v \<and>
   getDistanceContext (Some \<lparr>m_text = t, m_value = Some 2999\<rparr>) = ''nearby'' \<and>
   getDistanceContext (Some \<lparr>m_text = t, m_value = Some 3000\<rparr>) = ''short''"
  by (simp add: getDistanceContext_def metersOf_value Let_def)

text \<open>
  Claim C10. When the distance is absent, or has no \<open>value\<close> field,
  \<open>getDistanceContext\<close> takes it as 0 metres and returns \<open>nearby\<close>.
\<close>

theorem getDistanceContext_absent:
  "metersOf None = 0 \<and>
   metersOf (Some \<lparr>m_text = t, m_value = None\<rparr>) = 0 \<and>
   getDistanceContext None = ''nearby'' \<and>
   getDistanceContext (Some \<lparr>m_text = t, m_value = None\<rparr>) = ''nearby''"
  by (simp add: getDistanceContext_def metersOf_def)

lemma getTrafficStatus_present:
  assumes "n \<noteq> 0" and "t \<noteq> 0"
  shows "getTrafficStatus (Some n) (Some t) =
           (if percentageIncrease n t \<le> 10 then ''Light traffic''
            else if percentageIncrease n t \<le> 30 then ''Moderate traffic''
            else if percentageIncrease n t \<le> 50 then ''Heavy traffic''
            else ''Severe traffic'')"
  using assms by (simp add: getTrafficStatus_def falsyNum_def Let_def)

lemma getTrafficStatus_unknown:
  "getTrafficStatus normalDuration trafficDuration = ''Unknown'' \<longleftrightarrow>
     normalDuration = None \<or> normalDuration = Some 0 \<or>
     trafficDuration = None \<or> trafficDuration = Some 0"
proof (cases normalDuration)
  case None
  then show ?thesis by (simp add: getTrafficStatus_def falsyNum_def)
next
  case n: (Some n)
  show ?thesis
  proof (cases trafficDuration)
    case None
    then show ?thesis by (simp add: getTrafficStatus_def falsyNum_def)
  next
    case t: (Some t)
    show ?thesis
    proof (cases "n = 0 \<or> t = 0")
      case True
      then show ?thesis unfolding n t by (auto simp: getTrafficStatus_def falsyNum_def)
    next
      case False
      then show ?thesis unfolding n t by (simp add: getTrafficStatus_present)
    qed
  qed
qed

lemma getTrafficStatus_mono:
  assumes "n1 \<noteq> 0" "t1 \<noteq> 0" "n2 \<noteq> 0" "t2 \<noteq> 0"
      and "percentageIncrease n1 t1 \<le> percentageIncrease n2 t2"
  shows "severityRank (getTrafficStatus (Some n1) (Some t1)) \<le>
         severityRank (getTrafficStatus (Some n2) (Some t2))"
  using assms by (simp add: getTrafficStatus_present severityRank_def)

text \<open>
  Claim C3. \<open>getTrafficStatus\<close> returns \<open>Unknown\<close> exactly when one of the two
  durations is absent or zero. Otherwise the label is Light, Moderate, Heavy or Severe
  traffic according to the percentage increase of the traffic duration over the normal
  duration, with thresholds at 10, 30 and 50 per cent, and the label does not decrease
  in severity when the percentage increase grows.
\<close>

theorem getTrafficStatus_spec:
  "(getTrafficStatus normalDuration trafficDuration = ''Unknown'' \<longleftrightarrow>
      normalDuration = None \<or> normalDuration = Some 0 \<or>
      trafficDuration = None \<or> trafficDuration = Some 0) \<and>
   (n \<noteq> 0 \<and> t \<noteq> 0 \<longrightarrow>
      getTrafficStatus (Some n) (Some t) =
        (if percentageIncrease n t \<le> 10 then ''Light traffic''
         else if percentageIncrease n t \<le> 30 then ''Moderate traffic''
         else if percentageIncrease n t \<le> 50 then ''Heavy traffic''
         else ''Severe traffic'') \<and>
      percentageIncrease n t = (t - n) / n * 100) \<and>
   (n1 \<noteq> 0 \<and> t1 \<noteq> 0 \<and> n2 \<noteq> 0 \<and> t2 \<noteq> 0 \<and>
    percentageIncrease n1 t1 \<le> percentageIncrease n2 t2 \<longrightarrow>
      severityRank (getTrafficStatus (Some n1) (Some t1)) \<le>
      severityRank (getTrafficStatus (Some n2) (Some t2)))"
  using getTrafficStatus_unknown [of normalDuration trafficDuration]
    getTrafficStatus_present [of n t] getTrafficStatus_mono [of n1 t1 n2 t2]
  by (simp add: percentageIncrease_def Let_def)

theorem getTrafficStatus_spec_witness:
  "getTrafficStatus None (Some 600) = ''Unknown'' \<and>
   getTrafficStatus (Some 600) (Some 0) = ''Unknown'' \<and>
   getTrafficStatus (Some 600) (Some 660) = ''Light traffic'' \<and>
   getTrafficStatus (Some 600) (Some 840) = ''Heavy traffic'' \<and>
   percentageIncrease 600 660 = 10 \<and>
   percentageIncrease 600 840 = 40 \<and>
   severityRank (getTrafficStatus (Some 600) (Some 660)) \<le>
   severityRank (getTrafficStatus (Some 600) (Some 840))"
proof -
  note spec = getTrafficStatus_spec
  have p: "percentageIncrease 600 660 = 10" "percentageIncrease 600 840 = 40"
    by (simp_all add: percentageIncrease_def)
  have u1: "getTrafficStatus None (Some 600) = ''Unknown''"
    using spec [of None "Some 600" 1 1 1 1 1 1] by blast
  have u2: "getTrafficStatus (Some 600) (Some 0) = ''Unknown''"
    using spec [of "Some 600" "Some 0" 1 1 1 1 1 1] by blast
  have nz: "(600::rat) \<noteq> 0 \<and> (660::rat) \<noteq> 0" "(600::rat) \<noteq> 0 \<and> (840::rat) \<noteq> 0"
    by simp_all
  have "getTrafficStatus (Some 600) (Some 660) =
          (if percentageIncrease 600 660 \<le> 10 then ''Light traffic''
           else if percentageIncrease 600 660 \<le> 30 then ''Moderate traffic''
           else if percentageIncrease 600 660 \<le> 50 then ''Heavy traffic''
           else ''Severe traffic'')"
    using spec [of None None 600 660 1 1 1 1] nz(1) by blast
  then have l: "getTrafficStatus (Some 600) (Some 660) = ''Light traffic''"
    unfolding p by simp
  have "getTrafficStatus (Some 600) (Some 840) =
          (if percentageIncrease 600 840 \<le> 10 then ''Light traffic''
           else if percentageIncrease 600 840 \<le> 30 then ''Moderate traffic''
           else if percentageIncrease 600 840 \<le> 50 then ''Heavy traffic''
           else ''Severe traffic'')"
    using spec [of None None 600 840 1 1 1 1] nz(2) by blast
  then have h: "getTrafficStatus (Some 600) (Some 840) = ''Heavy traffic''"
    unfolding p by simp
  have "percentageIncrease 600 660 \<le> percentageIncrease 600 840"
    unfolding p by simp
  with nz spec [of None None 1 1 600 660 600 840]
  have m: "severityRank (getTrafficStatus (Some 600) (Some 660)) \<le>
           severityRank (getTrafficStatus (Some 600) (Some 840))"
    by blast
  from p u1 u2 l h m show ?thesis by blast
qed

section \<open>The handler\<close>

subsection \<open>The cache\<close>

lemma routeCache_get_live:
  assumes "c k = Some (v, inserted)" and "now \<le> inserted + stdTTL"
  shows "routeCache_get c now k = Some v"
  using assms by (simp add: routeCache_get_def)

lemma routeCache_get_set:
  "now \<le> inserted + stdTTL \<Longrightarrow> routeCache_get (routeCache_set c inserted k v) now k = Some v"
  by (simp add: routeCache_get_def routeCache_set_def)

text \<open>None of the functions the handler calls touches the cache.\<close>

lemma generateContent_cache:
  "generateContent e p st = (r, st') \<Longrightarrow> cache st' = cache st"
  by (auto simp: generateContent_def)

lemma directions_cache:
  "directions e ps st = (r, st') \<Longrightarrow> cache st' = cache st"
  by (auto simp: directions_def)

lemma extractLocationsAndMode_cache:
  "extractLocationsAndMode e q st = (r, st') \<Longrightarrow> cache st' = cache st"
  by (auto simp: extractLocationsAndMode_def generateContent_def)

lemma classifyQuery_cache:
  "classifyQuery e q st = (r, st') \<Longrightarrow> cache st' = cache st"
  by (auto simp: classifyQuery_def generateContent_def)

lemma formatDirections_cache:
  "formatDirections e d st = (r, st') \<Longrightarrow> cache st' = cache st"
  by (auto simp: formatDirections_def generateContent_def split: option.splits)

lemma asText_cache:
  assumes "asText x = (r, st')"
  shows "cache st' = cache (snd x)"
  using assms by (cases x) (auto simp: asText_def split: sum.splits)

lemma formattingFunction_cache:
  assumes "formattingFunction qt e d a b st = (r, st')"
  shows "cache st' = cache st"
proof -
  have t: "cache (snd (formatTrafficCheck e d a b st)) = cache st"
    by (simp add: formatTrafficCheck_def generateContent_def Let_def)
  have u: "cache (snd (formatDurationCheck e d a b st)) = cache st"
    by (simp add: formatDurationCheck_def generateContent_def Let_def)
  have s: "cache (snd (formatRouteStatus e d a b st)) = cache st"
    by (simp add: formatRouteStatus_def generateContent_def)
  have f: "cache (snd (formatDirections e d st)) = cache st"
    using formatDirections_cache [of e d st] by (cases "formatDirections e d st") simp
  from assms show ?thesis
    by (auto simp: formattingFunction_def t u s f dest!: asText_cache split: if_splits)
qed

text \<open>
  What the \<open>try\<close> block does to the cache: nothing when it throws; when it sends a
  response, either nothing, or it has stored, under the normalised query, the entry
  made of a text a formatter resolved to, and sends that entry with status 200.
\<close>

lemma getDirections_try_cache:
  assumes "getDirections_try e now query st = (r, st')"
  shows "case r of
           Inl error \<Rightarrow> cache st' = cache st
         | Inr res \<Rightarrow>
             (cache st' = cache st \<and> (http_status res = 200 \<longrightarrow> (\<exists>entry. body res = Result entry))) \<or>
              (\<exists>q queryType responseData orig dest st3 st4 formattedResponse.
                 query = Some q \<and>
                 formattingFunction queryType e responseData orig dest st3 =
                   (Inr formattedResponse, st4) \<and>
                 res = \<lparr>http_status = 200,
                        body = Result \<lparr>response = formattedResponse,
                                        query_type = queryType\<rparr>\<rparr> \<and>
                 cache st' =
                   routeCache_set (cache st) (now + elapsed e) (trim (toLowerCase q))
                     \<lparr>response = formattedResponse, query_type = queryType\<rparr>)"
proof (cases query)
  case None
  with assms show ?thesis by (auto simp: getDirections_try_def)
next
  case (Some q)
  obtain ex st1 where ex: "extractLocationsAndMode e q st = (ex, st1)" by fastforce
  obtain cl st2 where cl: "classifyQuery e q st1 = (cl, st2)" by fastforce
  have c2: "cache st2 = cache st"
    using extractLocationsAndMode_cache [OF ex] classifyQuery_cache [OF cl] by simp
  show ?thesis
  proof (cases "routeCache_get (cache st) now (trim (toLowerCase q)) = None \<and> q \<noteq> []")
    case False
    then consider cached where "routeCache_get (cache st) now (trim (toLowerCase q)) = Some cached"
      | "routeCache_get (cache st) now (trim (toLowerCase q)) = None" "q = []"
      by auto
    then show ?thesis
    proof cases
      case 1
      with assms Some show ?thesis by (auto simp: getDirections_try_def json_def)
    next
      case 2
      with assms Some show ?thesis by (auto simp: getDirections_try_def)
    qed
  next
    case miss: True
    show ?thesis
    proof (cases ex)
      case (Inl error)
      with assms Some ex cl c2 miss show ?thesis
        by (auto simp: getDirections_try_def)
    next
      case it: (Inr it)
      show ?thesis
      proof (cases cl)
        case (Inl error)
        with assms Some ex cl c2 miss it show ?thesis
          by (auto simp: getDirections_try_def)
      next
        case qt: (Inr queryType)
        obtain fetched st3
          where f: "directions e (directionsParams e it) st2 = (fetched, st3)" by fastforce
        have c3: "cache st3 = cache st" using directions_cache [OF f] c2 by simp
        show ?thesis
        proof (cases "\<exists>dr d. fetched = Inr dr \<and> data dr = Some d \<and> status d = ''OK''")
          case False
          with assms Some ex cl miss it qt f c3 show ?thesis
            by (auto simp: getDirections_try_def split: sum.splits option.splits if_splits)
        next
          case True
          then obtain dr d where ok: "fetched = Inr dr" "data dr = Some d" "status d = ''OK''"
            by blast
          let ?rd = "\<lparr>routes = map reduceRoute (d_routes d), rd_mode = mode it,
                       current_time = toLocaleTimeString e\<rparr>"
          obtain formatted st4
            where g: "formattingFunction queryType e ?rd (origin it) (destination it) st3 =
                        (formatted, st4)"
            by fastforce
          have c4: "cache st4 = cache st" using formattingFunction_cache [OF g] c3 by simp
          show ?thesis
          proof (cases formatted)
            case (Inl error)
            with assms Some ex cl miss it qt f ok g c4 show ?thesis
              by (auto simp: getDirections_try_def)
          next
            case (Inr formattedResponse)
            with assms Some ex cl miss it qt f ok g c4
            have "r = Inr \<lparr>http_status = 200,
                     body = Result \<lparr>response = formattedResponse, query_type = queryType\<rparr>\<rparr>"
              and "cache st' =
                     routeCache_set (cache st) (now + elapsed e) (trim (toLowerCase q))
                       \<lparr>response = formattedResponse, query_type = queryType\<rparr>"
              by (auto simp: getDirections_try_def json_def Let_def)
            with Some g Inr show ?thesis by auto
          qed
        qed
      qed
    qed
  qed
qed

subsection \<open>Cache hits\<close>

text \<open>
  Claim C1. When the cache holds an entry under the lower-cased, trimmed query and
  the entry was inserted at most \<open>stdTTL\<close> = 300 seconds before the request,
  \<open>getDirections\<close> answers with status 200 and that entry (its response text and its
  query type), and leaves the state as it was: no upstream call is recorded and the
  cache is not changed.
\<close>

theorem getDirections_cache_hit:
  assumes "cache st (trim (toLowerCase q)) = Some (entry, inserted)"
      and "now \<le> inserted + stdTTL"
  shows "getDirections e now (Some q) st =
           (\<lparr>http_status = 200, body = Result entry\<rparr>, st) \<and>
         calls (snd (getDirections e now (Some q) st)) = calls st \<and>
         stdTTL = 300"
  using assms
  by (simp add: getDirections_def getDirections_try_def routeCache_get_def json_def stdTTL_def)

theorem getDirections_cache_hit_witness:
  "fst (getDirections okEnv 400 (Some ''  IKEJA to Lekki '') warmState) =
     \<lparr>http_status = 200,
      body = Result \<lparr>response = Text ''Head north'', query_type = ''directions''\<rparr>\<rparr> \<and>
   calls (snd (getDirections okEnv 400 (Some ''  IKEJA to Lekki '') warmState)) = []"
proof -
  have key: "trim (toLowerCase ''  IKEJA to Lekki '') = ''ikeja to lekki''"
    by code_simp
  have a: "cache warmState (trim (toLowerCase ''  IKEJA to Lekki '')) = Some (cachedEntry, 100)"
    unfolding key by (simp add: warmState_def)
  have b: "(400::nat) \<le> 100 + stdTTL"
    by (simp add: stdTTL_def)
  from getDirections_cache_hit [OF a b, of okEnv]
  show ?thesis by (simp add: warmState_def cachedEntry_def)
qed

text \<open>
  A query that was served by the whole pipeline is served from the cache when it is
  repeated, up to case and surrounding white space, within the expiry window: the
  second request gets the same response and does not change the state.
\<close>

lemma getDirections_repeat:
  assumes served: "getDirections e now (Some q) st = (res, st')"
      and stored: "cache st' \<noteq> cache st"
      and same: "trim (toLowerCase q2) = trim (toLowerCase q)"
      and window: "now2 \<le> now + elapsed e + stdTTL"
  shows "getDirections e2 now2 (Some q2) st' = (res, st')"
proof -
  obtain r where t: "getDirections_try e now (Some q) st = (r, st')"
    using served by (auto simp: getDirections_def split: prod.splits sum.splits)
  from getDirections_try_cache [OF t] stored served t
  obtain entry where res: "res = \<lparr>http_status = 200, body = Result entry\<rparr>"
    and c: "cache st' =
              routeCache_set (cache st) (now + elapsed e) (trim (toLowerCase q)) entry"
    by (cases r) (auto simp: getDirections_def)
  have "routeCache_get (cache st') now2 (trim (toLowerCase q2)) = Some entry"
    unfolding c same using window by (rule routeCache_get_set)
  then show ?thesis
    by (simp add: getDirections_def getDirections_try_def json_def res)
qed

subsection \<open>A request without a query\<close>

text \<open>
  Claim C5 says that a request whose body has no \<open>query\<close> field is answered with
  status 400 and the error \<open>Query is required\<close>. The handler normalises the query for
  the cache lookup before it tests the query, so for such a request it throws a
  \<open>TypeError\<close> and answers with status 500 from its \<open>catch\<close> block.
\<close>

theorem getDirections_missing_query:
  "getDirections e now None st =
     (\<lparr>http_status = 500,
       body = Failure ''Error processing request'' (Some (message undefinedQueryError))\<rparr>,
      st)"
  by (simp add: getDirections_def getDirections_try_def getDirections_catch_def
        statusOr500_def undefinedQueryError_def newError_def)

text \<open>The test for a missing query is reached by the empty string, when no entry is
  cached under the empty key.\<close>

lemma getDirections_empty_query:
  assumes "routeCache_get (cache st) now [] = None"
  shows "getDirections e now (Some []) st =
           (\<lparr>http_status = 400, body = Failure ''Query is required'' None\<rparr>, st)"
  using assms
  by (simp add: getDirections_def getDirections_try_def toLowerCase_def trim_def)

subsection \<open>The classifier\<close>

text \<open>
  Claim C7. \<open>classifyQuery\<close> always resolves: when the model call fails it resolves
  to \<open>directions\<close>, and otherwise to the model's reply trimmed and lower-cased (in
  either order), whatever that reply is.
\<close>

theorem classifyQuery_never_rejects:
  "(\<exists>category. fst (classifyQuery e q st) = Inr category) \<and>
   (genAI e (ClassifyPrompt q) = Inl err \<longrightarrow>
      fst (classifyQuery e q st) = Inr ''directions'') \<and>
   (genAI e (ClassifyPrompt q) = Inr reply \<longrightarrow>
      fst (classifyQuery e q st) = Inr (toLowerCase (trim reply)) \<and>
      toLowerCase (trim reply) = trim (toLowerCase reply))"
  by (auto simp: classifyQuery_def generateContent_def trim_toLowerCase split: sum.splits)

theorem classifyQuery_never_rejects_witness:
  "fst (classifyQuery zeroResultsEnv ''fail'' emptyState) = Inr ''directions'' \<and>
   fst (classifyQuery zeroResultsEnv ''Will it rain in Yaba?'' emptyState) = Inr ''weather''"
proof -
  have a: "genAI zeroResultsEnv (ClassifyPrompt ''fail'') = Inl (newError ''fetch failed'')"
    by (simp add: zeroResultsEnv_def exampleModel_def)
  have b: "genAI zeroResultsEnv (ClassifyPrompt ''Will it rain in Yaba?'') = Inr '' Weather  ''"
    by (simp add: zeroResultsEnv_def exampleModel_def)
  have c: "toLowerCase (trim '' Weather  '') = ''weather''"
    by code_simp
  from classifyQuery_never_rejects [of zeroResultsEnv "''fail''" emptyState "newError ''fetch failed''"] a
  have "fst (classifyQuery zeroResultsEnv ''fail'' emptyState) = Inr ''directions''"
    by blast
  moreover
  from classifyQuery_never_rejects
         [of zeroResultsEnv "''Will it rain in Yaba?''" emptyState _ "'' Weather  ''"] b
  have "fst (classifyQuery zeroResultsEnv ''Will it rain in Yaba?'' emptyState) =
          Inr (toLowerCase (trim '' Weather  ''))"
    by blast
  ultimately show ?thesis unfolding c by simp
qed

subsection \<open>A failing provider call\<close>

text \<open>The extraction in the example environments.\<close>

lemma extract_example:
  assumes "genAI e (ExtractPrompt q) = Inr ikejaLekkiJson" and "JSON_parse e = parseExample"
  shows "extractLocationsAndMode e q st =
           (Inr exampleIntent, st\<lparr>calls := calls st @ [GenCall (ExtractPrompt q)]\<rparr>)"
proof -
  have t: "trim ikejaLekkiJson = ikejaLekkiJson"
    by code_simp
  have f: "\<not> includes_str ikejaLekkiJson ''```''"
    by code_simp
  have a: "addLocationQualifier ''Ikeja'' = ''Ikeja, Lagos, Nigeria''"
          "addLocationQualifier ''Lekki'' = ''Lekki, Lagos, Nigeria''"
    by code_simp+
  have m: "modeConfigFor ''car'' = carConfig"
    by (simp add: modeConfigFor_def modeMapping_def)
  show ?thesis
    using assms
    by (simp add: extractLocationsAndMode_def generateContent_def extractFromReply_def
          parseExample_def exampleIntent_def t f a m)
qed


lemma example_miss:
  "routeCache_get (cache emptyState) 0 (trim (toLowerCase ''Ikeja to Lekki'')) = None"
  by (simp add: routeCache_get_def emptyState_def)

lemma example_params: "directionsParams zeroResultsEnv exampleIntent = exampleParams"
  by (simp add: directionsParams_def exampleIntent_def exampleParams_def zeroResultsEnv_def
        carConfig_def)

text \<open>
  Claim C6 says that every provider status other than \<open>OK\<close> and not-found is answered
  with status 500 and the provider status in the details. Here the provider denies the
  request, the client rejects the call with an error carrying the status 403, and the
  handler answers with status 403 and the client's message.
\<close>

theorem provider_denied_counterexample:
  "mapsClient (rejectingEnv requestDenied) exampleParams =
     Inl \<lparr>message = ''Request failed with status code 403'', err_status = Some 403\<rparr> \<and>
   calls (snd (getDirections (rejectingEnv requestDenied) 0 (Some ''Ikeja to Lekki'')
            emptyState)) =
     [GenCall (ExtractPrompt ''Ikeja to Lekki''),
      GenCall (ClassifyPrompt ''Ikeja to Lekki''),
      MapsCall exampleParams] \<and>
   fst (getDirections (rejectingEnv requestDenied) 0 (Some ''Ikeja to Lekki'') emptyState) =
     \<lparr>http_status = 403,
      body = Failure ''Error processing request''
               (Some ''Request failed with status code 403'')\<rparr> \<and>
   http_status (fst (getDirections (rejectingEnv requestDenied) 0 (Some ''Ikeja to Lekki'')
                  emptyState)) \<noteq> 500"
proof -
  let ?run = "getDirections (rejectingEnv requestDenied) 0 (Some ''Ikeja to Lekki'') emptyState"
  have m: "mapsClient (rejectingEnv requestDenied) exampleParams =
             Inl \<lparr>message = ''Request failed with status code 403'', err_status = Some 403\<rparr>"
    by (simp add: rejectingEnv_def requestDenied_def)
  have c: "calls (snd ?run) =
     [GenCall (ExtractPrompt ''Ikeja to Lekki''),
      GenCall (ClassifyPrompt ''Ikeja to Lekki''),
      MapsCall exampleParams]"
    by code_simp
  have r: "fst ?run =
     \<lparr>http_status = 403,
      body = Failure ''Error processing request''
               (Some ''Request failed with status code 403'')\<rparr>"
    by code_simp
  have "http_status (fst ?run) \<noteq> 500"
    unfolding r by simp
  with m c r show ?thesis by blast
qed

text \<open>
  Claim C6, amended. Let the query be non-empty and not cached, and let the extraction
  succeed. When the provider call is rejected, the handler answers with the status the
  rejection carries (404 for a rejection with status 404), or with 500 when it carries
  none, and with the rejection's message as the details. When the call resolves with no
  data or with a status other than \<open>OK\<close>, the handler answers with status 500 and the
  details \<open>Invalid response: \<close> followed by the provider's status (\<open>undefined\<close> when
  there is no data). In both cases the error is \<open>Error processing request\<close> and the
  cache is not changed.
\<close>

theorem getDirections_provider_failure:
  assumes "routeCache_get (cache st) now (trim (toLowerCase q)) = None"
      and "q \<noteq> []"
      and "extractLocationsAndMode e q st = (Inr it, st1)"
  shows "(mapsClient e (directionsParams e it) = Inl err \<longrightarrow>
            fst (getDirections e now (Some q) st) =
              \<lparr>http_status =
                 (case err_status err of None \<Rightarrow> 500 | Some s \<Rightarrow> if s = 0 then 500 else s),
               body = Failure ''Error processing request'' (Some (message err))\<rparr> \<and>
            cache (snd (getDirections e now (Some q) st)) = cache st) \<and>
         (mapsClient e (directionsParams e it) = Inr r \<and>
          (data r = None \<or> (\<exists>d. data r = Some d \<and> status d \<noteq> ''OK'')) \<longrightarrow>
            fst (getDirections e now (Some q) st) =
              \<lparr>http_status = 500,
               body = Failure ''Error processing request''
                        (Some (''Invalid response: '' @
                           (case data r of None \<Rightarrow> ''undefined'' | Some d \<Rightarrow> status d)))\<rparr> \<and>
            cache (snd (getDirections e now (Some q) st)) = cache st)"
proof -
  obtain cl st2 where cl: "classifyQuery e q st1 = (Inr cl, st2)"
    by (cases "genAI e (ClassifyPrompt q)") (simp_all add: classifyQuery_def generateContent_def)
  have c2: "cache st2 = cache st"
    using extractLocationsAndMode_cache [OF assms(3)] classifyQuery_cache [OF cl] by simp
  let ?st3 = "st2\<lparr>calls := calls st2 @ [MapsCall (directionsParams e it)]\<rparr>"
  have d: "directions e (directionsParams e it) st2 = (mapsClient e (directionsParams e it), ?st3)"
    by (simp add: directions_def)
  have rejected: "getDirections_try e now (Some q) st = (Inl err, ?st3)"
    if "mapsClient e (directionsParams e it) = Inl err"
    using that assms cl d by (simp add: getDirections_try_def)
  have resolved: "getDirections_try e now (Some q) st = (Inl (invalidResponse r), ?st3)"
    if "mapsClient e (directionsParams e it) = Inr r"
      and "data r = None \<or> (\<exists>d. data r = Some d \<and> status d \<noteq> ''OK'')"
    using that assms cl d by (auto simp: getDirections_try_def)
  show ?thesis
    using rejected resolved c2
    by (auto simp: getDirections_def getDirections_catch_def statusOr500_def
          invalidResponse_def newError_def)
qed

theorem getDirections_provider_failure_witness:
  "fst (getDirections (rejectingEnv notFound) 0 (Some ''Ikeja to Lekki'') emptyState) =
     \<lparr>http_status = 404,
      body = Failure ''Error processing request''
               (Some ''Request failed with status code 404'')\<rparr> \<and>
   fst (getDirections (rejectingEnv timedOut) 0 (Some ''Ikeja to Lekki'') emptyState) =
     \<lparr>http_status = 500,
      body = Failure ''Error processing request'' (Some ''timeout of 10000ms exceeded'')\<rparr> \<and>
   fst (getDirections zeroResultsEnv 0 (Some ''Ikeja to Lekki'') emptyState) =
     \<lparr>http_status = 500,
      body = Failure ''Error processing request'' (Some ''Invalid response: ZERO_RESULTS'')\<rparr> \<and>
   cache (snd (getDirections (rejectingEnv notFound) 0 (Some ''Ikeja to Lekki'') emptyState)) =
     cache emptyState \<and>
   cache (snd (getDirections zeroResultsEnv 0 (Some ''Ikeja to Lekki'') emptyState)) =
     cache emptyState"
proof -
  let ?q = "''Ikeja to Lekki''"
  let ?st1 = "emptyState\<lparr>calls := calls emptyState @ [GenCall (ExtractPrompt ?q)]\<rparr>"
  let ?zero = "\<lparr>data = Some \<lparr>status = ''ZERO_RESULTS'', d_routes = []\<rparr>\<rparr>"
  note failure = getDirections_provider_failure
  have q: "?q \<noteq> []"
    by simp
  have x: "extractLocationsAndMode (rejectingEnv err) ?q emptyState = (Inr exampleIntent, ?st1)"
    for err
    by (rule extract_example) (simp_all add: rejectingEnv_def zeroResultsEnv_def exampleModel_def)
  have y: "extractLocationsAndMode zeroResultsEnv ?q emptyState = (Inr exampleIntent, ?st1)"
    by (rule extract_example) (simp_all add: zeroResultsEnv_def exampleModel_def)
  have rej: "mapsClient (rejectingEnv err) (directionsParams (rejectingEnv err) exampleIntent) =
               Inl err" for err
    by (simp add: rejectingEnv_def)
  have res: "mapsClient zeroResultsEnv (directionsParams zeroResultsEnv exampleIntent) = Inr ?zero"
    by (simp add: zeroResultsEnv_def)
  have nok: "data ?zero = None \<or> (\<exists>d. data ?zero = Some d \<and> status d \<noteq> ''OK'')"
    by simp
  from failure [OF example_miss q x, of notFound notFound] rej [of notFound]
  have a: "fst (getDirections (rejectingEnv notFound) 0 (Some ?q) emptyState) =
             \<lparr>http_status = 404,
              body = Failure ''Error processing request''
                       (Some ''Request failed with status code 404'')\<rparr>"
    and a': "cache (snd (getDirections (rejectingEnv notFound) 0 (Some ?q) emptyState)) =
               cache emptyState"
    by (simp_all add: notFound_def)
  from failure [OF example_miss q x, of timedOut timedOut] rej [of timedOut]
  have b: "fst (getDirections (rejectingEnv timedOut) 0 (Some ?q) emptyState) =
             \<lparr>http_status = 500,
              body = Failure ''Error processing request'' (Some ''timeout of 10000ms exceeded'')\<rparr>"
    by (simp add: timedOut_def)
  from failure [OF example_miss q y, of _ ?zero] res nok
  have c: "fst (getDirections zeroResultsEnv 0 (Some ?q) emptyState) =
             \<lparr>http_status = 500,
              body = Failure ''Error processing request''
                       (Some ''Invalid response: ZERO_RESULTS'')\<rparr>"
    and c': "cache (snd (getDirections zeroResultsEnv 0 (Some ?q) emptyState)) =
               cache emptyState"
    by simp_all
  from a a' b c c' show ?thesis by blast
qed

text \<open>With the label \<open>constructor\<close> the handler calls no formatter: it sends and caches
  the route data.\<close>

lemma getDirections_constructor_label:
  "calls (snd (getDirections constructorEnv 0 (Some ''Ikeja to Lekki'') emptyState)) =
     [GenCall (ExtractPrompt ''Ikeja to Lekki''),
      GenCall (ClassifyPrompt ''Ikeja to Lekki''),
      MapsCall exampleParams]"
  "fst (getDirections constructorEnv 0 (Some ''Ikeja to Lekki'') emptyState) =
     \<lparr>http_status = 200,
      body = Result \<lparr>response = RouteObject exampleData, query_type = ''constructor''\<rparr>\<rparr>"
  by code_simp+

subsection \<open>Errors and the cache\<close>







end
